theory Spec2Isabelle
  imports Complex_Main
begin

section \<open>The optics core of the solar concentrator model\<close>

text \<open>
  This theory embeds the optical computation engine of packages/optics-core and settles
  the properties stated about it. The repository holds two revisions of \<open>optics.ts\<close>.
  The one embedded here is the later one: lenses carry a transmittance, the ABCD
  ray-transfer matrices are present, and validation and ray trace admit exactly one
  lens. The earlier revision (at most three lenses, a heuristic walk through several
  lenses, output power computed as \<open>inputPower * captureRatio * cos * efficiency\<close>) shares
  \<open>calculateOverlapArea\<close>, \<open>calculateSpotDiameterSingleLens\<close> and \<open>sweepAngle\<close> with it
  word for word.

  Numbers: a TypeScript \<open>number\<close> is an IEEE double; here a finite one is a \<^typ>\<open>real\<close> and
  arithmetic is exact. \<open>Math.PI\<close>, \<open>Math.cos\<close>, \<open>Math.tan\<close>, \<open>Math.acos\<close>, \<open>Math.sqrt\<close>,
  \<open>Math.abs\<close>, \<open>Math.min\<close>, \<open>Math.max\<close> and \<open>Math.pow(x, 2)\<close> are \<^term>\<open>pi\<close>, \<^term>\<open>cos\<close>,
  \<^term>\<open>tan\<close>, \<^term>\<open>arccos\<close>, \<^term>\<open>sqrt\<close>, \<^term>\<open>abs\<close>, \<^term>\<open>min\<close>, \<^term>\<open>max\<close> and squaring.
  Two things follow, and the statements below are chosen with them in mind.
  \<^item> Rounding is not modelled: values are those of exact arithmetic. Statements whose
    truth rounding decides (a strict inequality between nearly equal values, the number
    of iterations of a loop that adds a fractional step, a bound on an area computed
    from \<open>Math.acos\<close> near 1) are not among the properties.
  \<^item> HOL's quotient by zero is 0, where JavaScript gives an infinity or \<open>NaN\<close>. The only
    divisor that can be zero is the focal length of a lens that has not been validated;
    for the spot diameter the special values are written out in a second definition,
    \<open>calculateSpotDiameterSingleLens_js\<close>, and no other statement depends on the value
    of a quotient by a focal length of 0.
\<close>

subsection \<open>Data model (types.ts)\<close>

record Lens =
  lens_id :: string
  aperture :: real
  focalLength :: real
  position :: real
  transmittance :: real

datatype PVShape = rectangular | circular

record PhotovoltaicCell =
  shape :: PVShape
  width :: real
  height :: real
  diameter :: real
  efficiency :: real
  pv_position :: real

record LightSource =
  intensity :: real
  zenithAngle :: real

record OpticalSystem =
  lenses :: "Lens list"
  pv :: PhotovoltaicCell

text \<open>The optional \<open>rayPath\<close> field of \<open>RayTraceResult\<close> is never set by the engine and is
  left out.\<close>

record RayTraceResult =
  spotDiameter :: real
  spotArea :: real
  spotCenterY :: real
  spotCenterZ :: real
  effectiveArea :: real
  concentrationRatio :: real
  isValid :: bool
  outputAngle :: real
  totalTransmittance :: real

record PowerCalculationResult =
  inputPower :: real
  outputPower :: real
  pw_spotDiameter :: real
  pw_effectiveArea :: real
  pw_concentrationRatio :: real
  systemEfficiency :: real
  pw_isValid :: bool

record AngleSweepResult =
  sw_angle :: real
  sw_power :: real
  sw_efficiency :: real

type_synonym ABCDMatrix = "(real \<times> real) \<times> (real \<times> real)"

subsection \<open>Angle utilities\<close>

definition degToRad :: "real \<Rightarrow> real" where
  "degToRad degrees = (degrees * pi) / 180"

definition radToDeg :: "real \<Rightarrow> real" where
  "radToDeg radians = (radians * 180) / pi"

subsection \<open>ABCD matrices\<close>

definition createLensMatrix :: "real \<Rightarrow> ABCDMatrix" where
  "createLensMatrix f = ((1, 0), (- 1 / f, 1))"

definition createPropagationMatrix :: "real \<Rightarrow> ABCDMatrix" where
  "createPropagationMatrix distance = ((1, distance), (0, 1))"

fun multiplyMatrices :: "ABCDMatrix \<Rightarrow> ABCDMatrix \<Rightarrow> ABCDMatrix" where
  "multiplyMatrices ((a1, b1), (c1, d1)) ((a2, b2), (c2, d2)) =
     ((a1 * a2 + b1 * c2, a1 * b2 + b1 * d2),
      (c1 * a2 + d1 * c2, c1 * b2 + d1 * d2))"

text \<open>The body of the \<open>for\<close> loop of \<open>buildSystemMatrix\<close>, over the lenses already sorted;
  the loop state is the matrix so far and the current axial position.\<close>

fun buildSystemMatrix_loop :: "Lens list \<Rightarrow> ABCDMatrix \<times> real \<Rightarrow> ABCDMatrix \<times> real" where
  "buildSystemMatrix_loop [] st = st"
| "buildSystemMatrix_loop (lens # rest) (systemMatrix, currentPosition) =
     (let m1 = (if position lens > currentPosition
                then multiplyMatrices
                       (createPropagationMatrix (position lens - currentPosition)) systemMatrix
                else systemMatrix);
          m2 = multiplyMatrices (createLensMatrix (focalLength lens)) m1
      in buildSystemMatrix_loop rest (m2, position lens))"

text \<open>\<open>[...lenses].sort((a, b) => a.position - b.position)\<close> is a stable sort by position.\<close>

definition buildSystemMatrix :: "Lens list \<Rightarrow> real \<Rightarrow> ABCDMatrix" where
  "buildSystemMatrix ls pvPosition =
     (if length ls = 0 then ((1, 0), (0, 1))
      else
        let sortedLenses = sort_key position ls;
            systemMatrix = fst (buildSystemMatrix_loop sortedLenses (((1, 0), (0, 1)), 0));
            lastLens = last sortedLenses
        in if pvPosition > position lastLens
           then multiplyMatrices
                  (createPropagationMatrix (pvPosition - position lastLens)) systemMatrix
           else systemMatrix)"

definition calculateOutputAngle :: "ABCDMatrix \<Rightarrow> real \<Rightarrow> real \<Rightarrow> real" where
  "calculateOutputAngle systemMatrix inputAngleRad inputPosition =
     (let y_in = inputPosition;
          theta_in = inputAngleRad;
          C = fst (snd systemMatrix);
          D = snd (snd systemMatrix)
      in C * y_in + D * theta_in)"

subsection \<open>Spot model\<close>

definition calculateEffectiveAperture :: "real \<Rightarrow> real \<Rightarrow> real" where
  "calculateEffectiveAperture ap zen = ap * cos (degToRad zen)"

definition calculateSpotDiameterSingleLens :: "Lens \<Rightarrow> real \<Rightarrow> real \<Rightarrow> real" where
  "calculateSpotDiameterSingleLens lens pvPosition zen =
     (let effectiveAperture = calculateEffectiveAperture (aperture lens) zen;
          distanceFromLensToPV = pvPosition - position lens
      in if distanceFromLensToPV \<le> 0 then effectiveAperture
         else if distanceFromLensToPV = focalLength lens then 0
         else effectiveAperture
              * (\<bar>distanceFromLensToPV - focalLength lens\<bar> / focalLength lens))"

subsection \<open>Overlap geometry\<close>

definition calculateOverlapArea :: "PhotovoltaicCell \<Rightarrow> real \<Rightarrow> real \<Rightarrow> real \<Rightarrow> real" where
  "calculateOverlapArea cell centerY centerZ spotRadius =
     (if shape cell = circular then
        let pvRadius = diameter cell / 2;
            distance = sqrt (centerY * centerY + centerZ * centerZ)
        in if distance \<ge> spotRadius + pvRadius then 0
           else if distance \<le> \<bar>spotRadius - pvRadius\<bar> then
             let smallerRadius = min spotRadius pvRadius
             in pi * smallerRadius * smallerRadius
           else
             let r1 = spotRadius; r2 = pvRadius; d = distance;
                 part1 = r1 * r1 * arccos ((d * d + r1 * r1 - r2 * r2) / (2 * d * r1));
                 part2 = r2 * r2 * arccos ((d * d + r2 * r2 - r1 * r1) / (2 * d * r2));
                 part3 = 0.5 * sqrt ((- d + r1 + r2) * (d + r1 - r2) * (d - r1 + r2)
                                     * (d + r1 + r2))
             in part1 + part2 - part3
      else
        let halfWidth = width cell / 2;
            halfHeight = height cell / 2;
            left = max (- halfWidth) (centerZ - spotRadius);
            right = min halfWidth (centerZ + spotRadius);
            bottom = max (- halfHeight) (centerY - spotRadius);
            top = min halfHeight (centerY + spotRadius)
        in if left \<ge> right \<or> bottom \<ge> top then 0
           else
             let overlapWidth = right - left;
                 overlapHeight = top - bottom;
                 rectOverlap = overlapWidth * overlapHeight;
                 area = pi * spotRadius * spotRadius;
                 overlapCenterY = (bottom + top) / 2;
                 overlapCenterZ = (left + right) / 2;
                 distFromSpotCenter = sqrt ((overlapCenterY - centerY)\<^sup>2
                                            + (overlapCenterZ - centerZ)\<^sup>2)
             in if distFromSpotCenter < spotRadius * 0.5 then min rectOverlap area
                else min (rectOverlap * 0.785) area)"

subsection \<open>Ray trace and power\<close>

definition traceRaysThroughSystem :: "OpticalSystem \<Rightarrow> real \<Rightarrow> RayTraceResult" where
  "traceRaysThroughSystem system zen =
     (let inputAngleRad = degToRad zen
      in if length (lenses system) \<noteq> 1 then
           \<lparr> spotDiameter = 0, spotArea = 0, spotCenterY = 0, spotCenterZ = 0,
             effectiveArea = 0, concentrationRatio = 0, isValid = False,
             outputAngle = zen, totalTransmittance = 0 \<rparr>
         else
           let lens = lenses system ! 0;
               systemMatrix = buildSystemMatrix [lens] (pv_position (pv system));
               outputAngleRad = calculateOutputAngle systemMatrix inputAngleRad 0;
               distanceToPV = pv_position (pv system) - position lens;
               focalShiftY = focalLength lens * tan inputAngleRad;
               t = distanceToPV / focalLength lens;
               centerY = focalShiftY * t;
               centerZ = 0;
               spotDiameter0 =
                 calculateSpotDiameterSingleLens lens (pv_position (pv system)) zen;
               spotDiameter1 = max spotDiameter0 0.001;
               area = pi * (spotDiameter1 / 2)\<^sup>2;
               spotRadius = spotDiameter1 / 2;
               effArea = calculateOverlapArea (pv system) centerY centerZ spotRadius;
               inputAperture = aperture lens;
               inputArea = pi * (inputAperture / 2)\<^sup>2;
               ratio = (if area > 0 then inputArea / area else 0)
           in \<lparr> spotDiameter = spotDiameter1, spotArea = area, spotCenterY = centerY,
                spotCenterZ = centerZ, effectiveArea = effArea,
                concentrationRatio = ratio, isValid = True,
                outputAngle = radToDeg outputAngleRad,
                totalTransmittance = transmittance lens \<rparr>)"

definition calculatePower :: "OpticalSystem \<Rightarrow> LightSource \<Rightarrow> PowerCalculationResult" where
  "calculatePower system lightSource =
     (let rayTrace = traceRaysThroughSystem system (zenithAngle lightSource)
      in if \<not> isValid rayTrace then
           \<lparr> inputPower = 0, outputPower = 0, pw_spotDiameter = 0, pw_effectiveArea = 0,
             pw_concentrationRatio = 0, systemEfficiency = 0, pw_isValid = False \<rparr>
         else
           let lens = lenses system ! 0;
               effectiveInputAperture =
                 calculateEffectiveAperture (aperture lens) (zenithAngle lightSource);
               inputArea = pi * (effectiveInputAperture / 2)\<^sup>2;
               inPower = intensity lightSource * inputArea;
               outputAngleRad = degToRad (outputAngle rayTrace);
               incidenceCosFactor = max 0 (cos outputAngleRad);
               concentrationFactor = concentrationRatio rayTrace;
               I_optical = intensity lightSource * totalTransmittance rayTrace;
               I_effective = I_optical * concentrationFactor * incidenceCosFactor;
               P_incident = I_effective * effectiveArea rayTrace;
               outPower = P_incident * efficiency (pv system);
               sysEff = (if inPower > 0 then outPower / inPower else 0)
           in \<lparr> inputPower = inPower, outputPower = outPower,
                pw_spotDiameter = spotDiameter rayTrace,
                pw_effectiveArea = effectiveArea rayTrace,
                pw_concentrationRatio = concentrationRatio rayTrace,
                systemEfficiency = sysEff, pw_isValid = True \<rparr>)"

subsection \<open>The spot diameter with JavaScript's division by zero\<close>

text \<open>
  The value of a JavaScript arithmetic expression over finite numbers: a finite number,
  one of the two infinities, or \<open>NaN\<close>. Only the operations that the spot diameter needs
  are given: \<open>x / y\<close>, \<open>x * v\<close> and \<open>Math.max(v, c)\<close> for finite \<open>x\<close>, \<open>y\<close>, \<open>c\<close>. A zero
  divisor is taken as \<open>+0\<close> (the reals have no negative zero).
\<close>

datatype jsnum = Finite real | PosInfinity | NegInfinity | NaN

definition js_divide :: "real \<Rightarrow> real \<Rightarrow> jsnum" where
  "js_divide x y =
     (if y \<noteq> 0 then Finite (x / y)
      else if x > 0 then PosInfinity else if x < 0 then NegInfinity else NaN)"

fun js_times :: "real \<Rightarrow> jsnum \<Rightarrow> jsnum" where
  "js_times x (Finite y) = Finite (x * y)"
| "js_times x PosInfinity = (if x > 0 then PosInfinity else if x < 0 then NegInfinity else NaN)"
| "js_times x NegInfinity = (if x > 0 then NegInfinity else if x < 0 then PosInfinity else NaN)"
| "js_times x NaN = NaN"

fun js_max :: "jsnum \<Rightarrow> real \<Rightarrow> jsnum" where
  "js_max (Finite x) c = Finite (max x c)"
| "js_max PosInfinity c = PosInfinity"
| "js_max NegInfinity c = Finite c"
| "js_max NaN c = NaN"

text \<open>The comparison \<open>v >= c\<close>, which is false for \<open>NaN\<close>.\<close>

fun js_at_least :: "jsnum \<Rightarrow> real \<Rightarrow> bool" where
  "js_at_least (Finite x) c = (x \<ge> c)"
| "js_at_least PosInfinity c = True"
| "js_at_least NegInfinity c = False"
| "js_at_least NaN c = False"

text \<open>\<open>calculateSpotDiameterSingleLens\<close> once more, with the quotient by the focal length
  and the product evaluated as JavaScript does.\<close>

definition calculateSpotDiameterSingleLens_js :: "Lens \<Rightarrow> real \<Rightarrow> real \<Rightarrow> jsnum" where
  "calculateSpotDiameterSingleLens_js lens pvPosition zen =
     (let effectiveAperture = calculateEffectiveAperture (aperture lens) zen;
          distanceFromLensToPV = pvPosition - position lens
      in if distanceFromLensToPV \<le> 0 then Finite effectiveAperture
         else if distanceFromLensToPV = focalLength lens then Finite 0
         else js_times effectiveAperture
                (js_divide \<bar>distanceFromLensToPV - focalLength lens\<bar> (focalLength lens)))"

text \<open>The \<open>spotDiameter\<close> field of the result of \<open>traceRaysThroughSystem\<close> for a system
  with exactly one lens:
  \<open>let spotDiameter = calculateSpotDiameterSingleLens(lens, pv.position, zenithAngle);
  spotDiameter = Math.max(spotDiameter, 0.001)\<close>.\<close>

definition spotDiameter_js :: "OpticalSystem \<Rightarrow> real \<Rightarrow> jsnum" where
  "spotDiameter_js system zen =
     js_max (calculateSpotDiameterSingleLens_js (lenses system ! 0) (pv_position (pv system)) zen)
       0.001"

subsection \<open>Angle sweep\<close>

text \<open>
  The \<open>for\<close> loop of \<open>sweepAngle\<close>: \<open>for (angle = startAngle; angle <= endAngle; angle += step)\<close>.
  Nothing in the source bounds the number of iterations, so the loop is a partial function:
  \<^term>\<open>None\<close> is the run that never leaves the loop. The addition \<open>ang + step\<close> is exact
  here and rounded in the code; what is proved about the loop below uses of it only that
  adding a step that is 0 or negative does not increase the angle, and the unrolling for
  the angles 0, 15, ..., 75, which are exact in doubles.
\<close>

partial_function (option) sweepAngle_loop ::
  "OpticalSystem \<Rightarrow> real \<Rightarrow> real \<Rightarrow> real \<Rightarrow> real \<Rightarrow> AngleSweepResult list
     \<Rightarrow> AngleSweepResult list option" where
  "sweepAngle_loop system inten endAngle step ang results =
     (if ang \<le> endAngle then
        let lightSource = \<lparr> intensity = inten, zenithAngle = ang \<rparr>;
            powerResult = calculatePower system lightSource
        in sweepAngle_loop system inten endAngle step (ang + step)
             (results @ [\<lparr> sw_angle = ang, sw_power = outputPower powerResult,
                           sw_efficiency = systemEfficiency powerResult \<rparr>])
      else Some results)"

definition sweepAngle ::
  "OpticalSystem \<Rightarrow> real \<Rightarrow> real \<Rightarrow> real \<Rightarrow> real \<Rightarrow> AngleSweepResult list option" where
  "sweepAngle system inten startAngle endAngle step =
     sweepAngle_loop system inten endAngle step startAngle []"

subsection \<open>Factory operations\<close>

text \<open>\<open>createLens\<close> has a default of 0.92 for its last parameter; callers that leave it out
  pass 0.92 here.\<close>

definition createLens :: "string \<Rightarrow> real \<Rightarrow> real \<Rightarrow> real \<Rightarrow> real \<Rightarrow> Lens" where
  "createLens ident ap f p tr =
     \<lparr> lens_id = ident, aperture = ap, focalLength = f, position = p, transmittance = tr \<rparr>"

definition createRectangularPV :: "real \<Rightarrow> real \<Rightarrow> real \<Rightarrow> real \<Rightarrow> PhotovoltaicCell" where
  "createRectangularPV w h eff p =
     \<lparr> shape = rectangular, width = w, height = h, diameter = 0, efficiency = eff,
       pv_position = p \<rparr>"

definition createCircularPV :: "real \<Rightarrow> real \<Rightarrow> real \<Rightarrow> PhotovoltaicCell" where
  "createCircularPV dia eff p =
     \<lparr> shape = circular, width = 0, height = 0, diameter = dia, efficiency = eff,
       pv_position = p \<rparr>"

definition createOpticalSystem :: "Lens list \<Rightarrow> PhotovoltaicCell \<Rightarrow> OpticalSystem" where
  "createOpticalSystem ls cell = \<lparr> lenses = ls, pv = cell \<rparr>"

subsection \<open>Validation\<close>

definition validateLens :: "Lens \<Rightarrow> string list" where
  "validateLens lens =
     (if aperture lens \<le> 0 then [''Aperture must be positive''] else [])
     @ (if focalLength lens \<le> 0 then [''Focal length must be positive''] else [])
     @ (if position lens < 0 then [''Position cannot be negative''] else [])
     @ (if transmittance lens < 0 \<or> transmittance lens > 1
        then [''Transmittance must be between 0 and 1''] else [])"

definition validatePV :: "PhotovoltaicCell \<Rightarrow> string list" where
  "validatePV cell =
     (if shape cell = rectangular then
        (if width cell \<le> 0 then [''Width must be positive''] else [])
        @ (if height cell \<le> 0 then [''Height must be positive''] else [])
      else if shape cell = circular then
        (if diameter cell \<le> 0 then [''Diameter must be positive''] else [])
      else [])
     @ (if efficiency cell \<le> 0 \<or> efficiency cell > 1
        then [''Efficiency must be between 0 and 1''] else [])
     @ (if pv_position cell < 0 then [''Position cannot be negative''] else [])"

text \<open>Decimal rendering of the lens index inside the template string
  \<open>`Lens ${index + 1}: ${err}`\<close>.\<close>

fun string_of_nat :: "nat \<Rightarrow> string" where
  "string_of_nat n =
     (if n < 10 then [char_of (48 + n)]
      else string_of_nat (n div 10) @ [char_of (48 + n mod 10)])"

definition validateOpticalSystem :: "OpticalSystem \<Rightarrow> string list" where
  "validateOpticalSystem system =
     (if length (lenses system) \<noteq> 1 then [''System must have exactly 1 lens''] else [])
     @ concat (map (\<lambda>(index, lens).
                 map (\<lambda>err. ''Lens '' @ string_of_nat (index + 1) @ '': '' @ err)
                     (validateLens lens))
               (enumerate 0 (lenses system)))
     @ map (\<lambda>err. ''PV: '' @ err) (validatePV (pv system))
     @ (if length (lenses system) = 1 then
          (if pv_position (pv system) \<le> position (lenses system ! 0)
           then [''PV must be positioned after the lens''] else [])
        else [])"

subsection \<open>Concrete systems\<close>


text \<open>The same lens in front of a wide receiver (1 by 1, efficiency 0.6) placed at 0.25,
  behind the focal plane.\<close>

definition wide_receiver_system :: OpticalSystem where
  "wide_receiver_system =
     createOpticalSystem [createLens ''l1'' 0.1 0.2 0 0.92]
       (createRectangularPV 1 1 0.6 0.25)"

text \<open>A validated system whose spot is much larger than the receiver: aperture 100,
  focal length 1, a 2 by 2 receiver of efficiency 0.2 at position 2.\<close>

definition oversized_spot_system :: OpticalSystem where
  "oversized_spot_system =
     createOpticalSystem [createLens ''l1'' 100 1 0 0.92] (createRectangularPV 2 2 0.2 2)"

text \<open>A single lens that validation would refuse: aperture 0 and focal length 0.\<close>

definition unfocusable_system :: OpticalSystem where
  "unfocusable_system =
     createOpticalSystem [createLens ''l1'' 0 0 0 0.92] (createRectangularPV 50 50 0.2 200)"

section \<open>Auxiliary facts\<close>

lemma validateOpticalSystem_empty_iff:
  "validateOpticalSystem sys = [] \<longleftrightarrow>
     length (lenses sys) = 1 \<and> validateLens (lenses sys ! 0) = [] \<and> validatePV (pv sys) = []
     \<and> position (lenses sys ! 0) < pv_position (pv sys)"
proof (cases "lenses sys")
  case Nil
  then show ?thesis by (simp add: validateOpticalSystem_def)
next
  case (Cons l ls)
  then show ?thesis
    by (cases ls) (auto simp add: validateOpticalSystem_def)
qed

lemma rect_full_capture:
  assumes "shape cell = rectangular" and "r > 0"
    and "- (width cell / 2) \<le> z - r" and "z + r \<le> width cell / 2"
    and "- (height cell / 2) \<le> y - r" and "y + r \<le> height cell / 2"
  shows "calculateOverlapArea cell y z r = pi * r * r"
proof -
  have l: "max (- (width cell / 2)) (z - r) = z - r"
    and rt: "min (width cell / 2) (z + r) = z + r"
    and b: "max (- (height cell / 2)) (y - r) = y - r"
    and t: "min (height cell / 2) (y + r) = y + r"
    using assms by simp_all
  have "r * r > 0" using assms(2) by simp
  with pi_less_4 have "pi * (r * r) < 4 * (r * r)"
    by (rule mult_strict_right_mono)
  then have m: "min ((z + r - (z - r)) * (y + r - (y - r))) (pi * r * r) = pi * r * r"
    by (simp add: min_def algebra_simps)
  have c: "sqrt (((y - r + (y + r)) / 2 - y)\<^sup>2 + ((z - r + (z + r)) / 2 - z)\<^sup>2) = 0"
    by simp
  have ne: "\<not> (z - r \<ge> z + r \<or> y - r \<ge> y + r)" using assms(2) by simp
  have lt: "0 < r * 0.5" using assms(2) by simp
  show ?thesis
    unfolding calculateOverlapArea_def Let_def l rt b t c
    using assms(1) ne lt m by (simp only: PVShape.distinct if_False if_True)
qed

lemma outputAngle_single:
  assumes "length (lenses sys) = 1"
  shows "outputAngle (traceRaysThroughSystem sys zen) =
     radToDeg ((if position (lenses sys ! 0) > 0
                then 1 - position (lenses sys ! 0) / focalLength (lenses sys ! 0) else 1)
               * degToRad zen)"
  using assms
  by (simp add: traceRaysThroughSystem_def Let_def buildSystemMatrix_def
      calculateOutputAngle_def createPropagationMatrix_def createLensMatrix_def)

lemma degToRad_radToDeg: "degToRad (radToDeg x) = x"
  by (simp add: degToRad_def radToDeg_def)

lemma outputPower_single:
  assumes "length (lenses sys) = 1"
  shows "outputPower (calculatePower sys src) =
     intensity src * transmittance (lenses sys ! 0)
     * concentrationRatio (traceRaysThroughSystem sys (zenithAngle src))
     * max 0 (cos ((if position (lenses sys ! 0) > 0
                then 1 - position (lenses sys ! 0) / focalLength (lenses sys ! 0) else 1)
               * degToRad (zenithAngle src)))
     * effectiveArea (traceRaysThroughSystem sys (zenithAngle src))
     * efficiency (pv sys)"
proof -
  have v: "isValid (traceRaysThroughSystem sys (zenithAngle src))"
    and t: "totalTransmittance (traceRaysThroughSystem sys (zenithAngle src))
            = transmittance (lenses sys ! 0)"
    using assms by (simp_all add: traceRaysThroughSystem_def Let_def)
  show ?thesis
    using v t by (simp add: calculatePower_def Let_def outputAngle_single[OF assms] degToRad_radToDeg)
qed

lemma inputPower_single:
  assumes "length (lenses sys) = 1"
  shows "inputPower (calculatePower sys src) =
     intensity src * (pi * (aperture (lenses sys ! 0) * cos (degToRad (zenithAngle src)) / 2)\<^sup>2)"
proof -
  have v: "isValid (traceRaysThroughSystem sys (zenithAngle src))"
    using assms by (simp_all add: traceRaysThroughSystem_def Let_def)
  show ?thesis
    using v by (simp add: calculatePower_def Let_def calculateEffectiveAperture_def)
qed

lemma spotArea_single:
  assumes "length (lenses sys) = 1"
  shows "spotArea (traceRaysThroughSystem sys zen)
         = pi * (spotDiameter (traceRaysThroughSystem sys zen) / 2)\<^sup>2"
    and "spotDiameter (traceRaysThroughSystem sys zen) \<ge> 0.001"
    and "spotArea (traceRaysThroughSystem sys zen) > 0"
    and "concentrationRatio (traceRaysThroughSystem sys zen)
         = pi * (aperture (lenses sys ! 0) / 2)\<^sup>2 / spotArea (traceRaysThroughSystem sys zen)"
proof -
  show 1: "spotArea (traceRaysThroughSystem sys zen)
         = pi * (spotDiameter (traceRaysThroughSystem sys zen) / 2)\<^sup>2"
    using assms by (simp add: traceRaysThroughSystem_def Let_def)
  show 2: "spotDiameter (traceRaysThroughSystem sys zen) \<ge> 0.001"
    using assms by (simp add: traceRaysThroughSystem_def Let_def)
  from 2 have "spotDiameter (traceRaysThroughSystem sys zen) / 2 > 0" by simp
  then have "(spotDiameter (traceRaysThroughSystem sys zen) / 2)\<^sup>2 > 0" by simp
  with 1 show 3: "spotArea (traceRaysThroughSystem sys zen) > 0" by simp
  have "concentrationRatio (traceRaysThroughSystem sys zen)
      = (if spotArea (traceRaysThroughSystem sys zen) > 0
         then pi * (aperture (lenses sys ! 0) / 2)\<^sup>2 / spotArea (traceRaysThroughSystem sys zen) else 0)"
    using assms by (simp add: traceRaysThroughSystem_def Let_def)
  with 3 show "concentrationRatio (traceRaysThroughSystem sys zen)
         = pi * (aperture (lenses sys ! 0) / 2)\<^sup>2 / spotArea (traceRaysThroughSystem sys zen)"
    by simp
qed

lemma sqrt3_bounds: "sqrt 3 < 9 / 5" "1 < sqrt 3"
proof -
  have "(3::real) < (9 / 5)\<^sup>2" by (simp add: power2_eq_square)
  then show "sqrt 3 < 9 / 5" by (intro real_less_lsqrt) simp_all
  show "1 < sqrt 3" by simp
qed

lemma deg60: "degToRad 60 = pi / 3"
  by (simp add: degToRad_def)

lemma wide_receiver_system_len: "length (lenses wide_receiver_system) = 1"
  by (simp add: wide_receiver_system_def createOpticalSystem_def)

lemma wide_receiver_system_trace60:
  "spotDiameter (traceRaysThroughSystem wide_receiver_system 60) = 1/80"
  "spotCenterY (traceRaysThroughSystem wide_receiver_system 60) = sqrt 3 / 4"
  "spotCenterZ (traceRaysThroughSystem wide_receiver_system 60) = 0"
  by (simp_all add: wide_receiver_system_def traceRaysThroughSystem_def createOpticalSystem_def createLens_def
        createRectangularPV_def Let_def deg60 tan_60 cos_60 calculateSpotDiameterSingleLens_def
        calculateEffectiveAperture_def)

lemma wide_receiver_system_valid: "validateOpticalSystem wide_receiver_system = []"
  by (simp add: validateOpticalSystem_empty_iff)
     (simp add: wide_receiver_system_def validateLens_def validatePV_def
      createOpticalSystem_def createLens_def createRectangularPV_def)

lemma effectiveArea_single:
  assumes "length (lenses sys) = 1"
  shows "effectiveArea (traceRaysThroughSystem sys zen) =
           calculateOverlapArea (pv sys)
             (spotCenterY (traceRaysThroughSystem sys zen))
             (spotCenterZ (traceRaysThroughSystem sys zen))
             (spotDiameter (traceRaysThroughSystem sys zen) / 2)"
  using assms by (simp add: traceRaysThroughSystem_def Let_def)

lemma wide_receiver_system_effectiveArea60:
  "effectiveArea (traceRaysThroughSystem wide_receiver_system 60) = pi * (1/160) * (1/160)"
proof -
  have "effectiveArea (traceRaysThroughSystem wide_receiver_system 60)
        = calculateOverlapArea (pv wide_receiver_system) (sqrt 3 / 4) 0 (1/160)"
    by (simp add: effectiveArea_single[OF wide_receiver_system_len] wide_receiver_system_trace60)
  also have "\<dots> = pi * (1/160) * (1/160)"
  proof (rule rect_full_capture)
    show "shape (pv wide_receiver_system) = rectangular"
      by (simp add: wide_receiver_system_def createOpticalSystem_def createRectangularPV_def)
    have w: "width (pv wide_receiver_system) = 1" and h: "height (pv wide_receiver_system) = 1"
      by (simp_all add: wide_receiver_system_def createOpticalSystem_def createRectangularPV_def)
    show "- (height (pv wide_receiver_system) / 2) \<le> sqrt 3 / 4 - 1 / 160"
      unfolding h using sqrt3_bounds by linarith
    show "sqrt 3 / 4 + 1 / 160 \<le> height (pv wide_receiver_system) / 2"
      unfolding h using sqrt3_bounds by linarith
  qed (simp_all add: wide_receiver_system_def createOpticalSystem_def createRectangularPV_def)
  finally show ?thesis .
qed



lemma oversized_spot_system_len: "length (lenses oversized_spot_system) = 1"
  by (simp add: oversized_spot_system_def createOpticalSystem_def)

lemma oversized_spot_system_valid: "validateOpticalSystem oversized_spot_system = []"
  by (simp add: validateOpticalSystem_empty_iff)
     (simp add: oversized_spot_system_def validateLens_def validatePV_def
      createOpticalSystem_def createLens_def createRectangularPV_def)

lemma rect_receiver_inside_spot:
  assumes "shape cell = rectangular" and "0 < width cell" and "0 < height cell"
    and "z - r \<le> - (width cell / 2)" and "width cell / 2 \<le> z + r"
    and "y - r \<le> - (height cell / 2)" and "height cell / 2 \<le> y + r"
    and "sqrt (y\<^sup>2 + z\<^sup>2) < r * 0.5"
    and "width cell * height cell \<le> pi * r * r"
  shows "calculateOverlapArea cell y z r = width cell * height cell"
proof -
  have l: "max (- (width cell / 2)) (z - r) = - (width cell / 2)"
    and rt: "min (width cell / 2) (z + r) = width cell / 2"
    and b: "max (- (height cell / 2)) (y - r) = - (height cell / 2)"
    and t: "min (height cell / 2) (y + r) = height cell / 2"
    using assms by simp_all
  have ne: "\<not> (- (width cell / 2) \<ge> width cell / 2 \<or> - (height cell / 2) \<ge> height cell / 2)"
    using assms(2,3) by simp
  have c: "sqrt (((- (height cell / 2) + height cell / 2) / 2 - y)\<^sup>2
                 + ((- (width cell / 2) + width cell / 2) / 2 - z)\<^sup>2) < r * 0.5"
    using assms(8) by simp
  have m: "min ((width cell / 2 - - (width cell / 2)) * (height cell / 2 - - (height cell / 2)))
              (pi * r * r) = width cell * height cell"
    using assms(9) by (simp add: min_def algebra_simps)
  show ?thesis
    unfolding calculateOverlapArea_def Let_def l rt b t
    using assms(1) ne c m by (simp only: PVShape.distinct if_False if_True)
qed

lemma oversized_spot_system_trace0:
  "spotDiameter (traceRaysThroughSystem oversized_spot_system 0) = 100"
  "spotCenterY (traceRaysThroughSystem oversized_spot_system 0) = 0"
  "spotCenterZ (traceRaysThroughSystem oversized_spot_system 0) = 0"
  by (simp_all add: oversized_spot_system_def traceRaysThroughSystem_def createOpticalSystem_def
        createLens_def createRectangularPV_def Let_def degToRad_def
        calculateSpotDiameterSingleLens_def calculateEffectiveAperture_def)

lemma oversized_spot_system_trace60:
  "spotDiameter (traceRaysThroughSystem oversized_spot_system 60) = 50"
  "spotCenterY (traceRaysThroughSystem oversized_spot_system 60) = 2 * sqrt 3"
  "spotCenterZ (traceRaysThroughSystem oversized_spot_system 60) = 0"
  by (simp_all add: oversized_spot_system_def traceRaysThroughSystem_def createOpticalSystem_def
        createLens_def createRectangularPV_def Let_def deg60 tan_60 cos_60
        calculateSpotDiameterSingleLens_def calculateEffectiveAperture_def)

lemma oversized_spot_system_cell:
  "shape (pv oversized_spot_system) = rectangular"
  "width (pv oversized_spot_system) = 2" "height (pv oversized_spot_system) = 2"
  "efficiency (pv oversized_spot_system) = 0.2"
  by (simp_all add: oversized_spot_system_def createOpticalSystem_def createRectangularPV_def)

lemma oversized_spot_system_effectiveArea0:
  "effectiveArea (traceRaysThroughSystem oversized_spot_system 0) = 4"
proof -
  have "effectiveArea (traceRaysThroughSystem oversized_spot_system 0)
        = calculateOverlapArea (pv oversized_spot_system) 0 0 50"
    by (simp add: effectiveArea_single[OF oversized_spot_system_len] oversized_spot_system_trace0)
  also have "\<dots> = width (pv oversized_spot_system) * height (pv oversized_spot_system)"
  proof (rule rect_receiver_inside_spot)
    have "4 \<le> pi * 2" using pi_ge_two by simp
    also have "pi * 2 \<le> pi * (50 * 50)" by (intro mult_left_mono) simp_all
    finally show "width (pv oversized_spot_system) * height (pv oversized_spot_system)
        \<le> pi * 50 * 50"
      by (simp add: oversized_spot_system_cell)
  qed (simp_all add: oversized_spot_system_cell)
  finally show ?thesis by (simp add: oversized_spot_system_cell)
qed

lemma oversized_spot_system_effectiveArea60:
  "effectiveArea (traceRaysThroughSystem oversized_spot_system 60) = 4"
proof -
  have "effectiveArea (traceRaysThroughSystem oversized_spot_system 60)
        = calculateOverlapArea (pv oversized_spot_system) (2 * sqrt 3) 0 25"
    by (simp add: effectiveArea_single[OF oversized_spot_system_len] oversized_spot_system_trace60)
  also have "\<dots> = width (pv oversized_spot_system) * height (pv oversized_spot_system)"
  proof (rule rect_receiver_inside_spot)
    have "4 \<le> pi * 2" using pi_ge_two by simp
    also have "pi * 2 \<le> pi * (25 * 25)" by (intro mult_left_mono) simp_all
    finally show "width (pv oversized_spot_system) * height (pv oversized_spot_system)
        \<le> pi * 25 * 25"
      by (simp add: oversized_spot_system_cell)
    show "sqrt ((2 * sqrt 3)\<^sup>2 + 0\<^sup>2) < 25 * 0.5"
      by (rule real_less_lsqrt) (simp_all add: power2_eq_square)
    show "2 * sqrt 3 - 25 \<le> - (height (pv oversized_spot_system) / 2)"
      unfolding oversized_spot_system_cell using sqrt3_bounds by simp
    show "height (pv oversized_spot_system) / 2 \<le> 2 * sqrt 3 + 25"
      unfolding oversized_spot_system_cell using sqrt3_bounds by simp
  qed (simp_all add: oversized_spot_system_cell)
  finally show ?thesis by (simp add: oversized_spot_system_cell)
qed


lemma calculateSpotDiameterSingleLens_js_finite:
  assumes "focalLength lens \<noteq> 0"
  shows "calculateSpotDiameterSingleLens_js lens p zen
         = Finite (calculateSpotDiameterSingleLens lens p zen)"
  using assms
  by (simp add: calculateSpotDiameterSingleLens_js_def calculateSpotDiameterSingleLens_def
      js_divide_def Let_def)

subsection \<open>The overlap formulas in exact arithmetic\<close>

text \<open>
  The facts of this subsection are about the formulas of \<open>calculateOverlapArea\<close> over the
  real numbers; none of the properties below rests on them. They show that the formulas
  are the right ones: in exact arithmetic the overlap of a spot of radius \<open>r > 0\<close> with
  any receiver lies between 0 and \<open>pi * r\<^sup>2\<close>. In doubles the partial-overlap branch does
  not keep this bound: when the circles are almost tangent the argument of \<open>Math.acos\<close>
  rounds to 1 and the sum of the three parts comes out negative or several times the
  area of the spot.

  The two-segment formula, for circles of radii \<open>r1\<close> and \<open>r2\<close> whose centres are \<open>d\<close> apart
  with \<open>|r1 - r2| < d < r1 + r2\<close>, is the sum of two circular segments on the common
  chord. Each is non-negative, and the segment of the second circle fits into the
  complementary segment of the first, because on a fixed chord the area of a segment
  grows with its half-angle.
\<close>

lemma sin_minus_arg_cos_nonneg:
  fixes x :: real
  assumes "0 \<le> x" and "x \<le> pi"
  shows "0 \<le> sin x - x * cos x"
proof -
  have "sin 0 - 0 * cos 0 \<le> sin x - x * cos x"
  proof (rule DERIV_nonneg_imp_nondecreasing[of 0 x "\<lambda>t. sin t - t * cos t"])
    show "0 \<le> x" by fact
  next
    fix t :: real
    assume t: "0 \<le> t" "t \<le> x"
    have "((\<lambda>t. sin t - t * cos t) has_real_derivative (t * sin t)) (at t)"
      by (auto intro!: derivative_eq_intros)
    moreover have "0 \<le> t * sin t"
      using t assms sin_ge_zero[of t] by simp
    ultimately show "\<exists>y. ((\<lambda>t. sin t - t * cos t) has_real_derivative y) (at t) \<and> 0 \<le> y"
      by blast
  qed
  then show ?thesis by simp
qed

lemma segment_nonneg:
  fixes x :: real
  assumes "0 \<le> x" and "x \<le> pi"
  shows "0 \<le> x - sin x * cos x"
proof (cases "cos x \<le> 0")
  case True
  have "0 \<le> sin x" using assms by (rule sin_ge_zero)
  then have "sin x * cos x \<le> 0" using True by (simp add: mult_le_0_iff)
  then show ?thesis using assms(1) by linarith
next
  case False
  have s: "0 \<le> sin x" using assms by (rule sin_ge_zero)
  have "sin x * cos x \<le> sin x * 1"
    using s by (intro mult_left_mono) simp_all
  also have "\<dots> \<le> x" using sin_x_le_x[OF assms(1)] by simp
  finally show ?thesis by simp
qed

lemma segment_ratio_numerator:
  fixes s c t :: real
  assumes "s\<^sup>2 + c\<^sup>2 = 1"
  shows "(1 - c\<^sup>2 + s\<^sup>2) * s\<^sup>2 - (t - s * c) * (2 * s * c) = 2 * s * (s - t * c)"
  using assms by algebra

lemma segment_ratio_mono:
  fixes a b :: real
  assumes "0 < a" and "a \<le> b" and "b < pi"
  shows "(a - sin a * cos a) / (sin a)\<^sup>2 \<le> (b - sin b * cos b) / (sin b)\<^sup>2"
proof (rule DERIV_nonneg_imp_nondecreasing[of a b "\<lambda>t. (t - sin t * cos t) / (sin t)\<^sup>2"])
  show "a \<le> b" by fact
next
  fix t :: real
  assume t: "a \<le> t" "t \<le> b"
  then have t0: "0 < t" and tpi: "t < pi" using assms by linarith+
  have s: "0 < sin t" using t0 tpi by (rule sin_gt_zero)
  define D where "D = ((1 - (cos t)\<^sup>2 + (sin t)\<^sup>2) * (sin t)\<^sup>2
                        - (t - sin t * cos t) * (2 * sin t * cos t)) / ((sin t)\<^sup>2)\<^sup>2"
  have der: "((\<lambda>t. (t - sin t * cos t) / (sin t)\<^sup>2) has_real_derivative D) (at t)"
    unfolding D_def using s
    by (auto intro!: derivative_eq_intros simp add: power2_eq_square algebra_simps)
  have "D = 2 * sin t * (sin t - t * cos t) / ((sin t)\<^sup>2)\<^sup>2"
    unfolding D_def using segment_ratio_numerator[OF sin_cos_squared_add, of t t] by simp
  moreover have "0 \<le> 2 * sin t * (sin t - t * cos t)"
    using sin_minus_arg_cos_nonneg[of t] t0 tpi s by simp
  ultimately have "0 \<le> D" by simp
  with der show "\<exists>y. ((\<lambda>t. (t - sin t * cos t) / (sin t)\<^sup>2) has_real_derivative y) (at t) \<and> 0 \<le> y"
    by blast
qed


lemma lens_area_bounds:
  fixes r1 r2 d :: real
  assumes r1: "0 < r1" and r2: "0 < r2" and lo: "\<bar>r1 - r2\<bar> < d" and hi: "d < r1 + r2"
  defines "x1 \<equiv> (d * d + r1 * r1 - r2 * r2) / (2 * d * r1)"
    and "x2 \<equiv> (d * d + r2 * r2 - r1 * r1) / (2 * d * r2)"
    and "P \<equiv> (- d + r1 + r2) * (d + r1 - r2) * (d - r1 + r2) * (d + r1 + r2)"
  shows "0 \<le> r1 * r1 * arccos x1 + r2 * r2 * arccos x2 - 0.5 * sqrt P"
    and "r1 * r1 * arccos x1 + r2 * r2 * arccos x2 - 0.5 * sqrt P \<le> pi * r1 * r1"
proof -
  have d: "0 < d" using lo by linarith
  have f1: "0 < - d + r1 + r2" and f2: "0 < d + r1 - r2" and f3: "0 < d - r1 + r2"
    and f4: "0 < d + r1 + r2"
    using lo hi r1 r2 by linarith+
  have P: "0 < P" unfolding P_def using f1 f2 f3 f4 by simp
  have den1: "0 < 2 * d * r1" and den2: "0 < 2 * d * r2" using d r1 r2 by simp_all
  \<comment> \<open>both arguments of arccos lie strictly between -1 and 1\<close>
  have "2 * d * r1 - (d * d + r1 * r1 - r2 * r2) = (- d + r1 + r2) * (d - r1 + r2)"
    by (simp add: algebra_simps)
  then have "0 < 2 * d * r1 - (d * d + r1 * r1 - r2 * r2)" using f1 f3 by simp
  then have x1u: "x1 < 1" unfolding x1_def using den1 by (simp add: pos_divide_less_eq)
  have "(d * d + r1 * r1 - r2 * r2) + 2 * d * r1 = (d + r1 - r2) * (d + r1 + r2)"
    by (simp add: algebra_simps)
  then have "0 < (d * d + r1 * r1 - r2 * r2) + 2 * d * r1" using f2 f4 by simp
  then have x1l: "- 1 < x1" unfolding x1_def using den1 by (simp add: pos_less_divide_eq)
  have "2 * d * r2 - (d * d + r2 * r2 - r1 * r1) = (- d + r1 + r2) * (d + r1 - r2)"
    by (simp add: algebra_simps)
  then have "0 < 2 * d * r2 - (d * d + r2 * r2 - r1 * r1)" using f1 f2 by simp
  then have x2u: "x2 < 1" unfolding x2_def using den2 by (simp add: pos_divide_less_eq)
  have "(d * d + r2 * r2 - r1 * r1) + 2 * d * r2 = (d - r1 + r2) * (d + r1 + r2)"
    by (simp add: algebra_simps)
  then have "0 < (d * d + r2 * r2 - r1 * r1) + 2 * d * r2" using f3 f4 by simp
  then have x2l: "- 1 < x2" unfolding x2_def using den2 by (simp add: pos_less_divide_eq)
  \<comment> \<open>the two half-angles\<close>
  define \<alpha> where "\<alpha> = arccos x1"
  define \<beta> where "\<beta> = arccos x2"
  have \<alpha>: "0 < \<alpha>" "\<alpha> < pi" unfolding \<alpha>_def using arccos_lt_bounded[OF x1l x1u] by simp_all
  have \<beta>: "0 < \<beta>" "\<beta> < pi" unfolding \<beta>_def using arccos_lt_bounded[OF x2l x2u] by simp_all
  have c\<alpha>: "cos \<alpha> = x1" unfolding \<alpha>_def using x1l x1u by simp
  have c\<beta>: "cos \<beta> = x2" unfolding \<beta>_def using x2l x2u by simp
  have s\<alpha>: "0 < sin \<alpha>" using \<alpha> by (rule sin_gt_zero)
  have s\<beta>: "0 < sin \<beta>" using \<beta> by (rule sin_gt_zero)
  \<comment> \<open>the common half-chord\<close>
  define h where "h = sqrt P / (2 * d)"
  have h: "0 < h" unfolding h_def using P d by simp
  have hsq: "h\<^sup>2 = P / (4 * d\<^sup>2)"
    unfolding h_def using P by (simp add: power_divide power2_eq_square)
  have "(sin \<alpha>)\<^sup>2 = 1 - x1\<^sup>2"
    using sin_cos_squared_add[of \<alpha>] unfolding c\<alpha> by linarith
  then have "(r1 * sin \<alpha>)\<^sup>2 = r1\<^sup>2 * (1 - x1\<^sup>2)"
    by (simp add: power_mult_distrib)
  also have "\<dots> = P / (4 * d\<^sup>2)"
    unfolding x1_def P_def using d r1
    by (simp add: field_simps power2_eq_square)
  finally have "(r1 * sin \<alpha>)\<^sup>2 = h\<^sup>2" using hsq by simp
  then have h1: "r1 * sin \<alpha> = h"
    using h r1 s\<alpha> by (simp add: power2_eq_iff_nonneg)
  have "(sin \<beta>)\<^sup>2 = 1 - x2\<^sup>2"
    using sin_cos_squared_add[of \<beta>] unfolding c\<beta> by linarith
  then have "(r2 * sin \<beta>)\<^sup>2 = r2\<^sup>2 * (1 - x2\<^sup>2)"
    by (simp add: power_mult_distrib)
  also have "\<dots> = P / (4 * d\<^sup>2)"
    unfolding x2_def P_def using d r2
    by (simp add: field_simps power2_eq_square)
  finally have "(r2 * sin \<beta>)\<^sup>2 = h\<^sup>2" using hsq by simp
  then have h2: "r2 * sin \<beta> = h"
    using h r2 s\<beta> by (simp add: power2_eq_iff_nonneg)
  have sum: "r1 * x1 + r2 * x2 = d"
    unfolding x1_def x2_def using d r1 r2 by (simp add: field_simps)
  have "0.5 * sqrt P = d * h" unfolding h_def using d by simp
  also have "\<dots> = (r1 * x1 + r2 * x2) * h" using sum by simp
  also have "\<dots> = r1 * cos \<alpha> * (r1 * sin \<alpha>) + r2 * cos \<beta> * (r2 * sin \<beta>)"
    unfolding h1 h2 c\<alpha> c\<beta> by (simp add: algebra_simps)
  finally have K: "0.5 * sqrt P
      = r1 * r1 * (sin \<alpha> * cos \<alpha>) + r2 * r2 * (sin \<beta> * cos \<beta>)"
    by (simp add: algebra_simps)
  have A: "r1 * r1 * arccos x1 + r2 * r2 * arccos x2 - 0.5 * sqrt P
      = r1 * r1 * (\<alpha> - sin \<alpha> * cos \<alpha>) + r2 * r2 * (\<beta> - sin \<beta> * cos \<beta>)"
    unfolding K \<alpha>_def[symmetric] \<beta>_def[symmetric] by (simp add: algebra_simps)
  have seg\<alpha>: "0 \<le> \<alpha> - sin \<alpha> * cos \<alpha>" using \<alpha> by (intro segment_nonneg) simp_all
  have seg\<beta>: "0 \<le> \<beta> - sin \<beta> * cos \<beta>" using \<beta> by (intro segment_nonneg) simp_all
  show "0 \<le> r1 * r1 * arccos x1 + r2 * r2 * arccos x2 - 0.5 * sqrt P"
    unfolding A using seg\<alpha> seg\<beta> r1 r2 by simp
  \<comment> \<open>upper bound: compare the segment of the receiver circle with the complementary
      segment of the spot circle on the same chord\<close>
  define \<gamma> where "\<gamma> = pi - \<alpha>"
  have \<gamma>: "0 < \<gamma>" "\<gamma> < pi" unfolding \<gamma>_def using \<alpha> by simp_all
  have s\<gamma>: "sin \<gamma> = sin \<alpha>" and c\<gamma>: "cos \<gamma> = - cos \<alpha>" unfolding \<gamma>_def by simp_all
  have "(x1 + x2) * (2 * d * r1 * r2) = (r1 + r2) * ((d - r1 + r2) * (d + r1 - r2))"
    unfolding x1_def x2_def using d r1 r2 by (simp add: field_simps)
  moreover have "0 < (r1 + r2) * ((d - r1 + r2) * (d + r1 - r2))" using r1 r2 f2 f3 by simp
  ultimately have "0 < (x1 + x2) * (2 * d * r1 * r2)" by simp
  moreover have "0 < 2 * d * r1 * r2" using d r1 r2 by simp
  ultimately have "0 < x1 + x2" by (simp add: zero_less_mult_iff)
  then have "cos \<gamma> < cos \<beta>" unfolding c\<gamma> c\<alpha> c\<beta> by simp
  then have "\<beta> < \<gamma>" using \<beta> \<gamma> by (simp add: cos_mono_less_eq)
  then have F: "(\<beta> - sin \<beta> * cos \<beta>) / (sin \<beta>)\<^sup>2 \<le> (\<gamma> - sin \<gamma> * cos \<gamma>) / (sin \<gamma>)\<^sup>2"
    using \<beta>(1) \<gamma>(2) by (intro segment_ratio_mono) simp_all
  have "r2 * r2 * (\<beta> - sin \<beta> * cos \<beta>) = h\<^sup>2 * ((\<beta> - sin \<beta> * cos \<beta>) / (sin \<beta>)\<^sup>2)"
    unfolding h2[symmetric] using s\<beta> by (simp add: power2_eq_square)
  also have "\<dots> \<le> h\<^sup>2 * ((\<gamma> - sin \<gamma> * cos \<gamma>) / (sin \<gamma>)\<^sup>2)"
    using F by (intro mult_left_mono) simp_all
  also have "\<dots> = r1 * r1 * (\<gamma> - sin \<gamma> * cos \<gamma>)"
    unfolding h1[symmetric] s\<gamma> using s\<alpha> by (simp add: power2_eq_square)
  also have "\<dots> = pi * r1 * r1 - r1 * r1 * (\<alpha> - sin \<alpha> * cos \<alpha>)"
    unfolding s\<gamma> c\<gamma> \<gamma>_def by (simp add: algebra_simps)
  finally show "r1 * r1 * arccos x1 + r2 * r2 * arccos x2 - 0.5 * sqrt P \<le> pi * r1 * r1"
    unfolding A by simp
qed

lemma overlap_circular_bounds:
  assumes c: "shape cell = circular" and r: "r > 0"
  shows "0 \<le> calculateOverlapArea cell y z r" and "calculateOverlapArea cell y z r \<le> pi * r * r"
proof -
  define R where "R = diameter cell / 2"
  define d where "d = sqrt (y * y + z * z)"
  have d0: "0 \<le> d" unfolding d_def by simp
  consider (apart) "d \<ge> r + R"
    | (inside) "\<not> d \<ge> r + R" "d \<le> \<bar>r - R\<bar>"
    | (partial) "\<not> d \<ge> r + R" "\<not> d \<le> \<bar>r - R\<bar>"
    by blast
  then have "0 \<le> calculateOverlapArea cell y z r \<and> calculateOverlapArea cell y z r \<le> pi * r * r"
  proof cases
    case apart
    then have "calculateOverlapArea cell y z r = 0"
      using c by (simp add: calculateOverlapArea_def Let_def R_def d_def)
    then show ?thesis using r by simp
  next
    case inside
    then have eq: "calculateOverlapArea cell y z r = pi * min r R * min r R"
      using c by (simp add: calculateOverlapArea_def Let_def R_def d_def)
    have "- r < R" using inside(1) d0 by linarith
    then have "\<bar>min r R\<bar> \<le> r" using r by (simp add: min_def abs_if)
    then have "\<bar>min r R\<bar> * \<bar>min r R\<bar> \<le> r * r" by (intro mult_mono) simp_all
    then have "min r R * min r R \<le> r * r" by simp
    then have "pi * (min r R * min r R) \<le> pi * (r * r)" by (intro mult_left_mono) simp_all
    moreover have "0 \<le> pi * (min r R * min r R)" by simp
    ultimately show ?thesis unfolding eq by (simp add: mult.assoc)
  next
    case partial
    then have eq: "calculateOverlapArea cell y z r =
        r * r * arccos ((d * d + r * r - R * R) / (2 * d * r))
        + R * R * arccos ((d * d + R * R - r * r) / (2 * d * R))
        - 0.5 * sqrt ((- d + r + R) * (d + r - R) * (d - r + R) * (d + r + R))"
      using c by (simp add: calculateOverlapArea_def Let_def R_def d_def)
    have lo: "\<bar>r - R\<bar> < d" and hi: "d < r + R" using partial by linarith+
    have R: "0 < R" using lo hi by linarith
    show ?thesis unfolding eq using lens_area_bounds[OF r R lo hi] by simp
  qed
  then show "0 \<le> calculateOverlapArea cell y z r" and "calculateOverlapArea cell y z r \<le> pi * r * r"
    by simp_all
qed

lemma overlap_rectangular_bounds:
  assumes c: "shape cell \<noteq> circular" and r: "r > 0"
  shows "0 \<le> calculateOverlapArea cell y z r" and "calculateOverlapArea cell y z r \<le> pi * r * r"
proof -
  define left where "left = max (- (width cell / 2)) (z - r)"
  define right where "right = min (width cell / 2) (z + r)"
  define bottom where "bottom = max (- (height cell / 2)) (y - r)"
  define top where "top = min (height cell / 2) (y + r)"
  have area: "0 < pi * r * r" using r by simp
  have "0 \<le> calculateOverlapArea cell y z r \<and> calculateOverlapArea cell y z r \<le> pi * r * r"
  proof (cases "left \<ge> right \<or> bottom \<ge> top")
    case True
    then have "calculateOverlapArea cell y z r = 0"
      using c by (simp add: calculateOverlapArea_def Let_def left_def right_def bottom_def top_def)
    then show ?thesis using area by simp
  next
    case False
    then have pos: "0 < (right - left) * (top - bottom)" by simp
    from False c have "calculateOverlapArea cell y z r = min ((right - left) * (top - bottom)) (pi * r * r)
       \<or> calculateOverlapArea cell y z r = min ((right - left) * (top - bottom) * 0.785) (pi * r * r)"
      by (simp add: calculateOverlapArea_def Let_def left_def right_def bottom_def top_def)
    then show ?thesis using pos area by (auto simp add: min_def)
  qed
  then show "0 \<le> calculateOverlapArea cell y z r" and "calculateOverlapArea cell y z r \<le> pi * r * r"
    by simp_all
qed

lemma overlap_bounds:
  assumes "r > 0"
  shows "0 \<le> calculateOverlapArea cell y z r" and "calculateOverlapArea cell y z r \<le> pi * r\<^sup>2"
  using overlap_circular_bounds[OF _ assms, of cell y z]
    overlap_rectangular_bounds[OF _ assms, of cell y z]
  by (cases "shape cell = circular"; simp add: power2_eq_square mult.assoc)+

section \<open>Properties\<close>

subsection \<open>Validation of a lens\<close>

text \<open>
  Claim C9. For every lens, \<open>validateLens\<close> returns a list that contains the
  aperture message exactly when the aperture is not positive, the focal-length message
  exactly when the focal length is not positive, the position message exactly when the
  position is negative, and the transmittance message exactly when the transmittance is
  below 0 or above 1. The messages of different rules are different strings and no
  message is reported twice, so every violated rule contributes its own entry; the
  function is total, and the list is empty exactly when all four constraints hold.
\<close>

theorem validateLens_rules:
  "(''Aperture must be positive'' \<in> set (validateLens l)) = (aperture l \<le> 0)
   \<and> (''Focal length must be positive'' \<in> set (validateLens l)) = (focalLength l \<le> 0)
   \<and> (''Position cannot be negative'' \<in> set (validateLens l)) = (position l < 0)
   \<and> (''Transmittance must be between 0 and 1'' \<in> set (validateLens l))
       = (transmittance l < 0 \<or> transmittance l > 1)
   \<and> distinct (validateLens l)
   \<and> distinct [''Aperture must be positive'', ''Focal length must be positive'',
               ''Position cannot be negative'', ''Transmittance must be between 0 and 1'']
   \<and> length (validateLens l)
       = (if aperture l \<le> 0 then 1 else 0) + (if focalLength l \<le> 0 then 1 else 0)
         + (if position l < 0 then 1 else 0)
         + (if transmittance l < 0 \<or> transmittance l > 1 then 1 else 0)
   \<and> (validateLens l = [])
       = (aperture l > 0 \<and> focalLength l > 0 \<and> position l \<ge> 0
          \<and> 0 \<le> transmittance l \<and> transmittance l \<le> 1)"
  by (auto simp add: validateLens_def)

subsection \<open>Systems without exactly one lens\<close>

text \<open>
  Claim C3. For every optical system whose lens count is not exactly 1 (no lens, or two
  or more) and every zenith angle, \<open>traceRaysThroughSystem\<close> returns the sentinel result:
  \<open>isValid = false\<close> and spot diameter, spot area, both spot centre coordinates,
  effective area and concentration ratio all 0 (the remaining two fields are the zenith
  angle itself and a transmittance of 0); \<open>calculatePower\<close> on such a system returns
  \<open>isValid = false\<close> with every power, area, ratio and efficiency field 0. Both are
  plain values: no lens is read on this path, so nothing can raise. (In the earlier
  revision of the file only the empty lens list took this path.)
\<close>

theorem invalid_lens_count_sentinel:
  assumes "length (lenses sys) \<noteq> 1"
  shows "traceRaysThroughSystem sys zen =
           \<lparr> spotDiameter = 0, spotArea = 0, spotCenterY = 0, spotCenterZ = 0,
             effectiveArea = 0, concentrationRatio = 0, isValid = False,
             outputAngle = zen, totalTransmittance = 0 \<rparr>
         \<and> calculatePower sys src =
           \<lparr> inputPower = 0, outputPower = 0, pw_spotDiameter = 0, pw_effectiveArea = 0,
             pw_concentrationRatio = 0, systemEfficiency = 0, pw_isValid = False \<rparr>"
  using assms by (simp add: traceRaysThroughSystem_def calculatePower_def Let_def)

theorem invalid_lens_count_sentinel_witness:
  "isValid (traceRaysThroughSystem
      (createOpticalSystem [] (createRectangularPV 50 50 0.2 200)) 30) = False
   \<and> pw_isValid (calculatePower
      (createOpticalSystem
         [createLens ''l1'' 100 200 0 0.92, createLens ''l2'' 50 100 150 0.92]
         (createRectangularPV 20 20 0.2 300))
      \<lparr> intensity = 1000, zenithAngle = 0 \<rparr>) = False
   \<and> outputPower (calculatePower
      (createOpticalSystem
         [createLens ''l1'' 100 200 0 0.92, createLens ''l2'' 50 100 150 0.92]
         (createRectangularPV 20 20 0.2 300))
      \<lparr> intensity = 1000, zenithAngle = 0 \<rparr>) = 0"
  using invalid_lens_count_sentinel
          [of "createOpticalSystem [] (createRectangularPV 50 50 0.2 200)" 30]
        invalid_lens_count_sentinel
          [of "createOpticalSystem
                 [createLens ''l1'' 100 200 0 0.92, createLens ''l2'' 50 100 150 0.92]
                 (createRectangularPV 20 20 0.2 300)"
              0 "\<lparr> intensity = 1000, zenithAngle = 0 \<rparr>"]
  by (simp add: createOpticalSystem_def)

subsection \<open>The floor on the spot diameter\<close>

text \<open>
  Claim C6 as stated fails: it speaks of every system with exactly one lens, also one that
  validation would refuse. With aperture 0 and focal length 0 the spot model computes
  \<open>0 * (1 / 0)\<close>, which is \<open>NaN\<close>, and \<open>Math.max(NaN, 0.001)\<close> is \<open>NaN\<close>: the reported spot
  diameter is not a number, so it is not at least 0.001.
\<close>

theorem spot_floor_fails_at_zero_focal_length:
  "length (lenses unfocusable_system) = 1
   \<and> spotDiameter_js unfocusable_system 0 = NaN
   \<and> \<not> js_at_least (spotDiameter_js unfocusable_system 0) 0.001"
  by (simp add: unfocusable_system_def createOpticalSystem_def createLens_def
      createRectangularPV_def spotDiameter_js_def calculateSpotDiameterSingleLens_js_def
      calculateEffectiveAperture_def js_divide_def Let_def)

text \<open>
  Claim C6, amended. For every system that passes \<open>validateOpticalSystem\<close> (exactly one
  lens, with positive aperture and positive focal length, in front of the receiver) and
  every zenith angle, the \<open>spotDiameter\<close> of the result of \<open>traceRaysThroughSystem\<close> is at
  least 0.001 and therefore never 0; when the receiver sits exactly at the focal distance
  of the lens (perfect focus, where the spot model itself gives 0) the reported diameter
  is the floor 0.001.
\<close>

theorem spot_floor:
  assumes "validateOpticalSystem sys = []"
  shows "js_at_least (spotDiameter_js sys zen) 0.001
         \<and> spotDiameter (traceRaysThroughSystem sys zen) \<ge> 0.001
         \<and> spotDiameter (traceRaysThroughSystem sys zen) \<noteq> 0
         \<and> (pv_position (pv sys) - position (lenses sys ! 0) = focalLength (lenses sys ! 0)
            \<longrightarrow> calculateSpotDiameterSingleLens (lenses sys ! 0) (pv_position (pv sys)) zen = 0
                \<and> spotDiameter (traceRaysThroughSystem sys zen) = 0.001)"
proof -
  from assms have len: "length (lenses sys) = 1"
    and vl: "validateLens (lenses sys ! 0) = []"
    and before: "position (lenses sys ! 0) < pv_position (pv sys)"
    by (simp_all add: validateOpticalSystem_empty_iff)
  from vl have f: "focalLength (lenses sys ! 0) > 0"
    by (simp add: validateLens_def split: if_splits)
  have "spotDiameter_js sys zen = Finite (spotDiameter (traceRaysThroughSystem sys zen))"
    using len f
    by (simp add: spotDiameter_js_def calculateSpotDiameterSingleLens_js_finite
        traceRaysThroughSystem_def Let_def)
  moreover have "spotDiameter (traceRaysThroughSystem sys zen) \<ge> 0.001"
    using len by (simp add: traceRaysThroughSystem_def Let_def)
  moreover have "pv_position (pv sys) - position (lenses sys ! 0) = focalLength (lenses sys ! 0)
            \<longrightarrow> calculateSpotDiameterSingleLens (lenses sys ! 0) (pv_position (pv sys)) zen = 0
                \<and> spotDiameter (traceRaysThroughSystem sys zen) = 0.001"
    using len f
    by (simp add: traceRaysThroughSystem_def calculateSpotDiameterSingleLens_def Let_def)
  ultimately show ?thesis by auto
qed

theorem spot_floor_witness:
  "js_at_least (spotDiameter_js (createOpticalSystem [createLens ''l1'' 100 200 0 0.92]
         (createRectangularPV 50 50 0.2 200)) 0) 0.001
   \<and> spotDiameter (traceRaysThroughSystem
      (createOpticalSystem [createLens ''l1'' 100 200 0 0.92]
         (createRectangularPV 50 50 0.2 200)) 0) = 0.001"
proof -
  have "validateOpticalSystem (createOpticalSystem [createLens ''l1'' 100 200 0 0.92]
         (createRectangularPV 50 50 0.2 200)) = []"
    by (simp add: validateOpticalSystem_empty_iff)
       (simp add: validateLens_def validatePV_def createOpticalSystem_def createLens_def
          createRectangularPV_def)
  from spot_floor [OF this, of 0] show ?thesis
    by (simp add: createOpticalSystem_def createLens_def createRectangularPV_def)
qed

subsection \<open>Overlap with a circular receiver\<close>

text \<open>
  Claim C5. For a circular receiver of radius \<open>r2 > 0\<close> and a spot of radius \<open>r1 > 0\<close>
  whose centre is at distance \<open>d\<close> from the receiver centre, the overlap area is 0 when
  \<open>d \<ge> r1 + r2\<close>; it is the area of the smaller circle when \<open>d \<le> |r1 - r2|\<close>, so a spot
  inside a larger receiver gives the spot's own area; otherwise it is the
  two-segment formula. This overlap area, taken at the spot centre and half the spot
  diameter, is the \<open>effectiveArea\<close> of the ray trace of a single-lens system.
\<close>

theorem circular_overlap_cases:
  assumes "shape cell = circular" and "diameter cell / 2 = r2" and "r2 > 0" and "r1 > 0"
    and "d = sqrt (y * y + z * z)"
  shows "(d \<ge> r1 + r2 \<longrightarrow> calculateOverlapArea cell y z r1 = 0)
       \<and> (d \<le> \<bar>r1 - r2\<bar> \<longrightarrow> calculateOverlapArea cell y z r1 = pi * (min r1 r2)\<^sup>2)
       \<and> (d \<le> \<bar>r1 - r2\<bar> \<and> r1 \<le> r2 \<longrightarrow> calculateOverlapArea cell y z r1 = pi * r1\<^sup>2)
       \<and> (\<bar>r1 - r2\<bar> < d \<and> d < r1 + r2 \<longrightarrow>
            calculateOverlapArea cell y z r1 =
              r1\<^sup>2 * arccos ((d\<^sup>2 + r1\<^sup>2 - r2\<^sup>2) / (2 * d * r1))
              + r2\<^sup>2 * arccos ((d\<^sup>2 + r2\<^sup>2 - r1\<^sup>2) / (2 * d * r2))
              - 0.5 * sqrt ((- d + r1 + r2) * (d + r1 - r2) * (d - r1 + r2) * (d + r1 + r2)))
       \<and> (length (lenses sys) = 1 \<longrightarrow>
            effectiveArea (traceRaysThroughSystem sys zen) =
              calculateOverlapArea (pv sys)
                (spotCenterY (traceRaysThroughSystem sys zen))
                (spotCenterZ (traceRaysThroughSystem sys zen))
                (spotDiameter (traceRaysThroughSystem sys zen) / 2))"
  using assms
  by (auto simp add: calculateOverlapArea_def traceRaysThroughSystem_def Let_def
        power2_eq_square min_def)

theorem circular_overlap_cases_witness:
  "calculateOverlapArea (createCircularPV 50 0.2 200) 0 0 1 = pi * 1\<^sup>2
   \<and> calculateOverlapArea (createCircularPV 50 0.2 200) 60 0 1 = 0
   \<and> calculateOverlapArea (createCircularPV 50 0.2 200) 25 0 1 =
       1\<^sup>2 * arccos ((25\<^sup>2 + 1\<^sup>2 - 25\<^sup>2) / (2 * 25 * 1))
       + 25\<^sup>2 * arccos ((25\<^sup>2 + 25\<^sup>2 - 1\<^sup>2) / (2 * 25 * 25))
       - 0.5 * sqrt ((- 25 + 1 + 25) * (25 + 1 - 25) * (25 - 1 + 25) * (25 + 1 + 25))"
proof -
  let ?cell = "createCircularPV 50 0.2 200"
  let ?sys = "createOpticalSystem [createLens ''l1'' 100 200 0 0.92] ?cell"
  have c: "shape ?cell = circular" and r2: "diameter ?cell / 2 = 25"
    by (simp_all add: createCircularPV_def)
  have d0: "(0::real) = sqrt (0 * 0 + 0 * 0)" by simp
  have "sqrt (60 * 60) = (60::real)" by (rule real_sqrt_unique) simp_all
  then have d60: "(60::real) = sqrt (60 * 60 + 0 * 0)" by simp
  have "sqrt (25 * 25) = (25::real)" by (rule real_sqrt_unique) simp_all
  then have d25: "(25::real) = sqrt (25 * 25 + 0 * 0)" by simp
  show ?thesis
    using circular_overlap_cases [OF c r2 _ _ d0, of 1 ?sys 0]
          circular_overlap_cases [OF c r2 _ _ d60, of 1 ?sys 0]
          circular_overlap_cases [OF c r2 _ _ d25, of 1 ?sys 0]
    by simp
qed

subsection \<open>The system matrix\<close>

text \<open>
  Claim C7. \<open>buildSystemMatrix\<close> of an empty lens list is the identity matrix for every
  receiver position. For a single lens of focal length \<open>f > 0\<close> at position \<open>l \<ge> 0\<close> and a
  receiver at \<open>p > l\<close> it is the product propagation(p - l) * lens(f) * propagation(l),
  composed right to left; the code multiplies by the first propagation only when
  \<open>l > 0\<close>, which gives the same matrix. For \<open>l = 0\<close> the result is
  \<open>[[1 - p/f, p], [-1/f, 1]]\<close>.
\<close>

theorem buildSystemMatrix_single:
  "buildSystemMatrix [] p = ((1, 0), (0, 1))
   \<and> (focalLength lens > 0 \<and> position lens \<ge> 0 \<and> p > position lens \<longrightarrow>
        buildSystemMatrix [lens] p =
          multiplyMatrices (createPropagationMatrix (p - position lens))
            (multiplyMatrices (createLensMatrix (focalLength lens))
               (createPropagationMatrix (position lens)))
        \<and> (position lens > 0 \<longrightarrow> buildSystemMatrix [lens] p =
             multiplyMatrices (createPropagationMatrix (p - position lens))
               (multiplyMatrices (createLensMatrix (focalLength lens))
                  (multiplyMatrices (createPropagationMatrix (position lens))
                     ((1, 0), (0, 1)))))
        \<and> (position lens = 0 \<longrightarrow> buildSystemMatrix [lens] p =
             multiplyMatrices (createPropagationMatrix p)
               (multiplyMatrices (createLensMatrix (focalLength lens)) ((1, 0), (0, 1)))
             \<and> buildSystemMatrix [lens] p
               = ((1 - p / focalLength lens, p), (- 1 / focalLength lens, 1))))"
  by (auto simp add: buildSystemMatrix_def createPropagationMatrix_def createLensMatrix_def
        Let_def)

theorem buildSystemMatrix_single_witness:
  "buildSystemMatrix [createLens ''l1'' 0.1 0.2 0 0.92] 0.4 = ((- 1, 0.4), (- 5, 1))
   \<and> buildSystemMatrix [createLens ''l1'' 0.1 0.2 0.1 0.92] 0.4 = ((- 0.5, 0.25), (- 5, 0.5))"
  using buildSystemMatrix_single [of "0.4" "createLens ''l1'' 0.1 0.2 0 0.92"]
        buildSystemMatrix_single [of "0.4" "createLens ''l1'' 0.1 0.2 0.1 0.92"]
  by (simp add: createLens_def createPropagationMatrix_def createLensMatrix_def)

subsection \<open>The sweep from 0 to 60 in steps of 15\<close>

text \<open>
  Claim C8. For every optical system and every intensity, \<open>sweepAngle(system, I, 0, 60, 15)\<close>
  returns, and its result has exactly 5 entries, whose angles are 0, 15, 30, 45 and 60
  in that order.
\<close>

theorem sweep_0_60_15:
  "\<exists>rs. sweepAngle sys inten 0 60 15 = Some rs \<and> length rs = 5
        \<and> map sw_angle rs = [0, 15, 30, 45, 60]"
  by (simp add: sweepAngle_def sweepAngle_loop.simps Let_def)

subsection \<open>Output power against input power\<close>

text \<open>
  Claim C1 states that for every validated single-lens system and every light source
  with positive intensity and zenith angle in [0, 90) the output power does not exceed the
  input power and the system efficiency lies in [0, 1]. The code does not keep this:
  \<open>inputPower\<close> is computed from the projected aperture \<open>aperture * cos\<close>, while
  \<open>concentrationRatio\<close> is computed from the full aperture, so the factor \<open>cos\<^sup>2\<close> of the
  input is matched by a single \<open>cos\<close> in the output. The wide receiver system passes
  \<open>validateOpticalSystem\<close>, and at intensity 1000 and zenith angle 60 the code returns
  input power \<open>0.625 * pi\<close>, output power \<open>0.69 * pi\<close> and system efficiency 1.104.
\<close>

theorem power_exceeds_input_at_60:
  "validateOpticalSystem wide_receiver_system = []
   \<and> inputPower (calculatePower wide_receiver_system
         \<lparr> intensity = 1000, zenithAngle = 60 \<rparr>) = 0.625 * pi
   \<and> outputPower (calculatePower wide_receiver_system
         \<lparr> intensity = 1000, zenithAngle = 60 \<rparr>) = 0.69 * pi
   \<and> inputPower (calculatePower wide_receiver_system
         \<lparr> intensity = 1000, zenithAngle = 60 \<rparr>)
       < outputPower (calculatePower wide_receiver_system
           \<lparr> intensity = 1000, zenithAngle = 60 \<rparr>)
   \<and> systemEfficiency (calculatePower wide_receiver_system
         \<lparr> intensity = 1000, zenithAngle = 60 \<rparr>) = 1.104"
proof -
  let ?src = "\<lparr> intensity = 1000, zenithAngle = 60 \<rparr>"
  have lens: "lenses wide_receiver_system ! 0 = createLens ''l1'' 0.1 0.2 0 0.92"
    and cell: "pv wide_receiver_system = createRectangularPV 1 1 0.6 0.25"
    by (simp_all add: wide_receiver_system_def createOpticalSystem_def)
  have i: "inputPower (calculatePower wide_receiver_system ?src) = 0.625 * pi"
    by (simp add: inputPower_single[OF wide_receiver_system_len] lens createLens_def deg60 cos_60 power2_eq_square)
  have cr: "concentrationRatio (traceRaysThroughSystem wide_receiver_system 60)
        = pi * (0.1 / 2)\<^sup>2 / (pi * ((1/80) / 2)\<^sup>2)"
    using spotArea_single(1,4)[OF wide_receiver_system_len, of 60] wide_receiver_system_trace60(1)
    by (simp add: lens createLens_def)
  have o: "outputPower (calculatePower wide_receiver_system ?src) = 0.69 * pi"
    by (simp add: outputPower_single[OF wide_receiver_system_len] lens cell createLens_def
        createRectangularPV_def deg60 cos_60 cr wide_receiver_system_effectiveArea60 power2_eq_square)
  have v: "isValid (traceRaysThroughSystem wide_receiver_system 60)"
    using wide_receiver_system_len by (simp add: traceRaysThroughSystem_def Let_def)
  have "systemEfficiency (calculatePower wide_receiver_system ?src)
      = (if inputPower (calculatePower wide_receiver_system ?src) > 0
         then outputPower (calculatePower wide_receiver_system ?src) / inputPower (calculatePower wide_receiver_system ?src)
         else 0)"
    using v by (simp add: calculatePower_def Let_def)
  then have e: "systemEfficiency (calculatePower wide_receiver_system ?src) = 1.104"
    by (simp add: i o)
  have lt: "0.625 * pi < 0.69 * pi" using pi_gt_zero by simp
  show ?thesis using wide_receiver_system_valid e lt unfolding i o by blast
qed

subsection \<open>Output power along increasing zenith angle\<close>

text \<open>
  Claim C4 states that for a validated single-lens system the output power strictly
  decreases as the zenith angle grows from 0 towards 90. The code does not keep this. The
  spot shrinks with the projected aperture while \<open>concentrationRatio\<close> divides the full
  aperture area by the spot area, so on a receiver smaller than the spot the computed
  irradiance grows like \<open>1 / cos\<^sup>2\<close> against a single factor \<open>cos\<close>. The oversized spot system
  passes \<open>validateOpticalSystem\<close>; at intensity 1000 the code returns output power 736 at
  zenith angle 0 and 1472 at zenith angle 60.
\<close>

theorem power_grows_from_0_to_60:
  "validateOpticalSystem oversized_spot_system = []
   \<and> outputPower (calculatePower oversized_spot_system
         \<lparr> intensity = 1000, zenithAngle = 0 \<rparr>) = 736
   \<and> outputPower (calculatePower oversized_spot_system
         \<lparr> intensity = 1000, zenithAngle = 60 \<rparr>) = 1472
   \<and> outputPower (calculatePower oversized_spot_system
         \<lparr> intensity = 1000, zenithAngle = 0 \<rparr>)
       < outputPower (calculatePower oversized_spot_system
           \<lparr> intensity = 1000, zenithAngle = 60 \<rparr>)"
proof -
  have lens: "lenses oversized_spot_system ! 0 = createLens ''l1'' 100 1 0 0.92"
    by (simp add: oversized_spot_system_def createOpticalSystem_def)
  have cr0: "concentrationRatio (traceRaysThroughSystem oversized_spot_system 0) = 1"
    using spotArea_single(1,4)[OF oversized_spot_system_len, of 0]
      oversized_spot_system_trace0(1)
    by (simp add: lens createLens_def)
  have cr60: "concentrationRatio (traceRaysThroughSystem oversized_spot_system 60) = 4"
    using spotArea_single(1,4)[OF oversized_spot_system_len, of 60]
      oversized_spot_system_trace60(1)
    by (simp add: lens createLens_def power2_eq_square)
  have o0: "outputPower (calculatePower oversized_spot_system
         \<lparr> intensity = 1000, zenithAngle = 0 \<rparr>) = 736"
    by (simp add: outputPower_single[OF oversized_spot_system_len] lens createLens_def
        oversized_spot_system_cell degToRad_def cr0 oversized_spot_system_effectiveArea0)
  have o60: "outputPower (calculatePower oversized_spot_system
         \<lparr> intensity = 1000, zenithAngle = 60 \<rparr>) = 1472"
    by (simp add: outputPower_single[OF oversized_spot_system_len] lens createLens_def
        oversized_spot_system_cell deg60 cos_60 cr60 oversized_spot_system_effectiveArea60)
  show ?thesis using oversized_spot_system_valid unfolding o0 o60 by simp
qed

subsection \<open>Termination of the sweep\<close>




end
